theory Spec2Isabelle
  imports Complex_Main "HOL-Library.AList" "HOL-Library.Sublist" "HOL-Library.Multiset"
begin

section \<open>JavaScript values and objects\<close>

text \<open>
  The statistics code of \<^verbatim>\<open>src/App.jsx\<close> works on values decoded from JSON.
  A finite JavaScript Number is a rational; sums, products and quotients are computed
  exactly here, which is what the code computes as long as every intermediate result is
  an integer of magnitude at most \<open>2^53\<close>; the theorems that depend on it say so.

  A plain object \<^verbatim>\<open>{}\<close> used as a dictionary has its own properties, an association list
  in insertion order (\<^term>\<open>map_of\<close> reads an own property, \<^term>\<open>AList.update\<close> writes one,
  in place when the key exists and at the end otherwise), and the properties it inherits
  from \<^verbatim>\<open>Object.prototype\<close>. Reading a key finds the own property, else the inherited
  one, else \<^verbatim>\<open>undefined\<close>. The inherited values are functions, and the prototype itself
  under \<^verbatim>\<open>__proto__\<close>: all of them truthy. The properties that the code below adds to these
  inherited objects all hold NaN and read like missing ones.
\<close>

type_synonym 'a obj = "(string \<times> 'a) list"

definition object_prototype_keys :: "string list" where
  "object_prototype_keys =
    [''constructor'', ''__defineGetter__'', ''__defineSetter__'', ''hasOwnProperty'',
     ''__lookupGetter__'', ''__lookupSetter__'', ''isPrototypeOf'', ''propertyIsEnumerable'',
     ''toString'', ''valueOf'', ''__proto__'', ''toLocaleString'']"

definition inherited :: "string \<Rightarrow> bool" where
  "inherited k = (k \<in> set object_prototype_keys)"

datatype 'a lookup = Own 'a | Inherited | Missing

text \<open>\<^verbatim>\<open>ob[k]\<close>\<close>

definition get_prop :: "'a obj \<Rightarrow> string \<Rightarrow> 'a lookup" where
  "get_prop ob k =
    (case map_of ob k of Some v \<Rightarrow> Own v | None \<Rightarrow> if inherited k then Inherited else Missing)"

text \<open>A string-valued field that may be missing. \<^verbatim>\<open>undefined\<close>, \<^verbatim>\<open>null\<close> and
  the empty string are falsy.\<close>

fun truthy :: "string option \<Rightarrow> bool" where
  "truthy None = False"
| "truthy (Some s) = (s \<noteq> [])"

text \<open>\<^verbatim>\<open>a || b\<close>: the left operand when it is truthy, the right one otherwise.\<close>

definition js_or :: "string option \<Rightarrow> string option \<Rightarrow> string option" where
  "js_or a b = (if truthy a then a else b)"

section \<open>Game Tally Builder\<close>

text \<open>The per-player object \<^verbatim>\<open>{ w: 0, d: 0, l: 0, games: 0 }\<close>.\<close>

record stats =
  w :: nat
  d :: nat
  l :: nat
  games :: nat

definition zero_stats :: stats where
  "zero_stats = \<lparr>w = 0, d = 0, l = 0, games = 0\<rparr>"

text \<open>A raw game: \<^verbatim>\<open>players.white.user.name\<close>, \<^verbatim>\<open>players.white.user.id\<close>, the same
  for black, and \<^verbatim>\<open>winner\<close>. Optional chaining makes every missing level \<^verbatim>\<open>undefined\<close>.\<close>

record game =
  white_user_name :: "string option"
  white_user_id :: "string option"
  black_user_name :: "string option"
  black_user_id :: "string option"
  winner :: "string option"

definition white_of :: "game \<Rightarrow> string option" where
  "white_of g = js_or (white_user_name g) (white_user_id g)"

definition black_of :: "game \<Rightarrow> string option" where
  "black_of g = js_or (black_user_name g) (black_user_id g)"

text \<open>\<^verbatim>\<open>if (!stats[k]) stats[k] = { w: 0, d: 0, l: 0, games: 0 }\<close>: an entry is created
  only when the key is neither an own nor an inherited property.\<close>

definition init_stats :: "string \<Rightarrow> stats obj \<Rightarrow> stats obj" where
  "init_stats k st = (case get_prop st k of Missing \<Rightarrow> AList.update k zero_stats st | _ \<Rightarrow> st)"

text \<open>\<^verbatim>\<open>stats[k].field += 1\<close>: the object stored under \<open>k\<close> is changed in place. When
  \<open>k\<close> is an inherited key the object changed is the inherited one and the own properties
  stay as they are; a key that is neither own nor inherited has been initialised before
  every use.\<close>

definition modify :: "string \<Rightarrow> ('a \<Rightarrow> 'a) \<Rightarrow> 'a obj \<Rightarrow> 'a obj" where
  "modify k f st = (case map_of st k of None \<Rightarrow> st | Some v \<Rightarrow> AList.update k (f v) st)"

text \<open>One iteration of \<^verbatim>\<open>games.forEach\<close> in \<^verbatim>\<open>fetchTournamentGames\<close>.\<close>

definition tally_game :: "stats obj \<Rightarrow> game \<Rightarrow> stats obj" where
  "tally_game st g =
    (let white = white_of g; black = black_of g in
     if \<not> truthy white \<or> \<not> truthy black then st
     else
       let wk = the white; bk = the black;
           st1 = init_stats wk st;
           st2 = init_stats bk st1;
           st3 = modify wk (\<lambda>s. s\<lparr>games := games s + 1\<rparr>) st2;
           st4 = modify bk (\<lambda>s. s\<lparr>games := games s + 1\<rparr>) st3
       in
         if winner g = Some ''white'' then
           modify bk (\<lambda>s. s\<lparr>l := l s + 1\<rparr>) (modify wk (\<lambda>s. s\<lparr>w := w s + 1\<rparr>) st4)
         else if winner g = Some ''black'' then
           modify wk (\<lambda>s. s\<lparr>l := l s + 1\<rparr>) (modify bk (\<lambda>s. s\<lparr>w := w s + 1\<rparr>) st4)
         else
           modify bk (\<lambda>s. s\<lparr>d := d s + 1\<rparr>) (modify wk (\<lambda>s. s\<lparr>d := d s + 1\<rparr>) st4))"

text \<open>The tally of a decoded game list: \<^verbatim>\<open>const stats = {}; games.forEach(...); return stats\<close>.\<close>

definition fetchTournamentGames :: "game list \<Rightarrow> stats obj" where
  "fetchTournamentGames gs = foldl tally_game [] gs"

text \<open>Reading a player's tally with the all-zero default, as
  \<^verbatim>\<open>games[name] || { w: 0, d: 0, l: 0, games: 0 }\<close> does.\<close>

definition stats_of :: "stats obj \<Rightarrow> string \<Rightarrow> stats" where
  "stats_of st k = (case map_of st k of None \<Rightarrow> zero_stats | Some s \<Rightarrow> s)"

text \<open>The sum of one counter over all players of a tally.\<close>

definition sum_over :: "(stats \<Rightarrow> nat) \<Rightarrow> stats obj \<Rightarrow> nat" where
  "sum_over f st = sum_list (map (\<lambda>kv. f (snd kv)) st)"

subsection \<open>Reading an updated object\<close>

lemma map_of_Some_key: "map_of st k = Some v \<Longrightarrow> k \<in> fst ` set st"
  by (metis map_of_eq_None_iff option.distinct(1))

lemma map_of_init_stats:
  "map_of (init_stats k st) p =
    (if p = k \<and> \<not> inherited k then Some (stats_of st k) else map_of st p)"
  by (simp add: init_stats_def get_prop_def stats_of_def update_conv' split: option.splits)

lemma map_of_modify:
  "map_of (modify k f st) p = (if p = k then map_option f (map_of st k) else map_of st p)"
  by (simp add: modify_def update_conv' split: option.splits)

lemma stats_of_init_stats [simp]: "stats_of (init_stats k st) p = stats_of st p"
  by (simp add: stats_of_def map_of_init_stats)

lemma keys_init_stats:
  "fst ` set (init_stats k st) = (if inherited k then fst ` set st else insert k (fst ` set st))"
  by (auto simp: init_stats_def get_prop_def dom_update split: option.splits dest: map_of_Some_key)

lemma keys_modify [simp]: "fst ` set (modify k f st) = fst ` set st"
  by (auto simp: modify_def dom_update split: option.splits dest: map_of_Some_key)

lemma stats_of_modify:
  "k \<in> fst ` set st \<Longrightarrow>
   stats_of (modify k f st) p = (if p = k then f (stats_of st k) else stats_of st p)"
  by (auto simp: stats_of_def map_of_modify map_of_eq_None_iff split: option.splits)

lemma modify_absent: "k \<notin> fst ` set st \<Longrightarrow> modify k f st = st"
  by (simp add: modify_def map_of_eq_None_iff [symmetric])

subsection \<open>One game\<close>

lemma tally_game_skip:
  "\<not> truthy (white_of g) \<or> \<not> truthy (black_of g) \<Longrightarrow> tally_game st g = st"
  by (auto simp: tally_game_def Let_def)

lemma tally_game_keys:
  "white_of g = Some a \<Longrightarrow> a \<noteq> [] \<Longrightarrow> black_of g = Some b \<Longrightarrow> b \<noteq> [] \<Longrightarrow>
   \<not> inherited a \<Longrightarrow> \<not> inherited b \<Longrightarrow>
   fst ` set (tally_game st g) = insert a (insert b (fst ` set st))"
  by (auto simp: tally_game_def Let_def keys_init_stats)

lemma tally_game_stats:
  assumes "white_of g = Some a" "a \<noteq> []" "black_of g = Some b" "b \<noteq> []"
    and "\<not> inherited a" "\<not> inherited b"
  shows "stats_of (tally_game st g) p =
    (let s = stats_of st p;
         na = (if p = a then 1 else 0); nb = (if p = b then 1 else 0) in
     if winner g = Some ''white'' then s\<lparr>w := w s + na, l := l s + nb, games := games s + na + nb\<rparr>
     else if winner g = Some ''black'' then s\<lparr>w := w s + nb, l := l s + na, games := games s + na + nb\<rparr>
     else s\<lparr>d := d s + na + nb, games := games s + na + nb\<rparr>)"
  using assms
  by (simp add: tally_game_def Let_def stats_of_modify keys_init_stats)

lemma fetchTournamentGames_snoc:
  "fetchTournamentGames (gs @ [g]) = tally_game (fetchTournamentGames gs) g"
  by (simp add: fetchTournamentGames_def)

subsection \<open>Sums over all players\<close>

lemma sum_over_update_None:
  "map_of st k = None \<Longrightarrow> sum_over f (AList.update k v st) = sum_over f st + f v"
  by (induction st) (auto simp: sum_over_def split: if_splits)

lemma sum_over_update_Some:
  "map_of st k = Some u \<Longrightarrow> sum_over f (AList.update k v st) + f u = sum_over f st + f v"
  by (induction st) (auto simp: sum_over_def split: if_splits)

lemma sum_over_init_stats:
  "f zero_stats = 0 \<Longrightarrow> sum_over f (init_stats k st) = sum_over f st"
  by (simp add: init_stats_def get_prop_def sum_over_update_None split: option.splits)

lemma sum_over_modify_add:
  assumes "k \<in> fst ` set st" and "\<And>s. f (g s) = f s + c"
  shows "sum_over f (modify k g st) = sum_over f st + c"
proof -
  from assms(1) obtain u where u: "map_of st k = Some u"
    by (metis map_of_eq_None_iff not_Some_eq)
  have "sum_over f (AList.update k (g u) st) + f u = sum_over f st + f (g u)"
    by (rule sum_over_update_Some [OF u])
  with assms(2) [of u] u show ?thesis
    by (simp add: modify_def)
qed

text \<open>Both sides of the game are resolved, so the game is counted; and neither name is
  an inherited key.\<close>

definition resolved :: "game \<Rightarrow> bool" where
  "resolved g = (truthy (white_of g) \<and> truthy (black_of g))"

definition decisive :: "game \<Rightarrow> bool" where
  "decisive g = (winner g = Some ''white'' \<or> winner g = Some ''black'')"

definition plain_names :: "game \<Rightarrow> bool" where
  "plain_names g =
    (resolved g \<longrightarrow> \<not> inherited (the (white_of g)) \<and> \<not> inherited (the (black_of g)))"

lemmas sum_over_tally_simps =
  tally_game_def Let_def resolved_def decisive_def plain_names_def zero_stats_def
  sum_over_init_stats keys_init_stats
  sum_over_modify_add [where c = 0] sum_over_modify_add [where c = 1]

lemma sum_w_tally_game:
  "plain_names g \<Longrightarrow>
   sum_over w (tally_game st g) = sum_over w st + (if resolved g \<and> decisive g then 1 else 0)"
  by (simp add: sum_over_tally_simps)

lemma sum_l_tally_game:
  "plain_names g \<Longrightarrow>
   sum_over l (tally_game st g) = sum_over l st + (if resolved g \<and> decisive g then 1 else 0)"
  by (simp add: sum_over_tally_simps)

lemma sum_d_tally_game:
  "plain_names g \<Longrightarrow>
   sum_over d (tally_game st g) = sum_over d st + (if resolved g \<and> \<not> decisive g then 2 else 0)"
  by (simp add: sum_over_tally_simps)

lemma sum_over_foldl_tally:
  "\<forall>g \<in> set gs. plain_names g \<Longrightarrow>
   sum_over w (foldl tally_game st gs) = sum_over w st + length (filter (\<lambda>g. resolved g \<and> decisive g) gs)
   \<and> sum_over l (foldl tally_game st gs) = sum_over l st + length (filter (\<lambda>g. resolved g \<and> decisive g) gs)
   \<and> sum_over d (foldl tally_game st gs) = sum_over d st + 2 * length (filter (\<lambda>g. resolved g \<and> \<not> decisive g) gs)"
  by (induction gs arbitrary: st) (simp_all add: sum_w_tally_game sum_l_tally_game sum_d_tally_game)

subsection \<open>The tally builder when no name is an inherited key\<close>

text \<open>
  For every raw game list \<open>gs\<close> and every next game \<open>g\<close>: when the white or the black
  identity of \<open>g\<close> is unresolvable, the tally after \<open>g\<close> is the tally before it. Otherwise,
  when neither name is a key inherited from \<^verbatim>\<open>Object.prototype\<close>, for every player \<open>p\<close>,
  \<open>games\<close> grows by one for each side \<open>p\<close> plays; \<open>w\<close> grows for white and \<open>l\<close> for black when
  the winner marker is \<^verbatim>\<open>"white"\<close>, \<open>w\<close> for black and \<open>l\<close> for white when it is \<^verbatim>\<open>"black"\<close>,
  and \<open>d\<close> for both sides for any other or absent marker; the two sides become keys of the
  tally.
\<close>

lemma tally_builder_step:
  "(\<not> truthy (white_of g) \<or> \<not> truthy (black_of g) \<longrightarrow>
      fetchTournamentGames (gs @ [g]) = fetchTournamentGames gs) \<and>
   (truthy (white_of g) \<and> truthy (black_of g) \<and>
    \<not> inherited (the (white_of g)) \<and> \<not> inherited (the (black_of g)) \<longrightarrow>
      fst ` set (fetchTournamentGames (gs @ [g])) =
        {the (white_of g), the (black_of g)} \<union> fst ` set (fetchTournamentGames gs) \<and>
      (\<forall>p. let old = stats_of (fetchTournamentGames gs) p;
               new = stats_of (fetchTournamentGames (gs @ [g])) p;
               na = (if Some p = white_of g then 1 else 0);
               nb = (if Some p = black_of g then 1 else 0)
           in games new = games old + na + nb \<and>
              w new = w old + (if winner g = Some ''white'' then na
                               else if winner g = Some ''black'' then nb else 0) \<and>
              l new = l old + (if winner g = Some ''white'' then nb
                               else if winner g = Some ''black'' then na else 0) \<and>
              d new = d old + (if winner g = Some ''white'' \<or> winner g = Some ''black'' then 0
                               else na + nb)))"
proof (intro conjI impI)
  assume "\<not> truthy (white_of g) \<or> \<not> truthy (black_of g)"
  then show "fetchTournamentGames (gs @ [g]) = fetchTournamentGames gs"
    by (simp only: fetchTournamentGames_snoc tally_game_skip)
next
  assume r: "truthy (white_of g) \<and> truthy (black_of g) \<and>
    \<not> inherited (the (white_of g)) \<and> \<not> inherited (the (black_of g))"
  then obtain a b where ab: "white_of g = Some a" "a \<noteq> []" "black_of g = Some b" "b \<noteq> []"
    "\<not> inherited a" "\<not> inherited b"
    by (cases "white_of g"; cases "black_of g") auto
  show "fst ` set (fetchTournamentGames (gs @ [g])) =
        {the (white_of g), the (black_of g)} \<union> fst ` set (fetchTournamentGames gs)"
    using ab by (simp add: fetchTournamentGames_snoc tally_game_keys)
  show "\<forall>p. let old = stats_of (fetchTournamentGames gs) p;
               new = stats_of (fetchTournamentGames (gs @ [g])) p;
               na = (if Some p = white_of g then 1 else 0);
               nb = (if Some p = black_of g then 1 else 0)
           in games new = games old + na + nb \<and>
              w new = w old + (if winner g = Some ''white'' then na
                               else if winner g = Some ''black'' then nb else 0) \<and>
              l new = l old + (if winner g = Some ''white'' then nb
                               else if winner g = Some ''black'' then na else 0) \<and>
              d new = d old + (if winner g = Some ''white'' \<or> winner g = Some ''black'' then 0
                               else na + nb)"
    using ab by (simp add: fetchTournamentGames_snoc tally_game_stats Let_def)
qed

text \<open>When no resolved game has a name that is an inherited key, the sum of \<open>w\<close> over all
  players equals the sum of \<open>l\<close>, and the sum of \<open>d\<close> is even.\<close>

lemma tally_wins_eq_losses_draws_even:
  "\<forall>g \<in> set gs. plain_names g \<Longrightarrow>
   sum_over w (fetchTournamentGames gs) = sum_over l (fetchTournamentGames gs) \<and>
   even (sum_over d (fetchTournamentGames gs))"
  using sum_over_foldl_tally [of gs "[]"]
  by (simp add: fetchTournamentGames_def sum_over_def)

subsection \<open>Names that are inherited keys\<close>

text \<open>A white win by \<open>constructor\<close> over \<open>bob\<close>, and a white win by \<open>bob\<close> over \<open>toString\<close>.\<close>

definition constructor_game :: game where
  "constructor_game =
    \<lparr>white_user_name = Some ''constructor'', white_user_id = None,
     black_user_name = Some ''bob'', black_user_id = None, winner = Some ''white''\<rparr>"

definition toString_game :: game where
  "toString_game =
    \<lparr>white_user_name = Some ''bob'', white_user_id = None,
     black_user_name = Some ''toString'', black_user_id = None, winner = Some ''white''\<rparr>"

text \<open>
  Claim C4 fails in the code. Both sides of the game resolve, and the tally that the code
  returns has no entry for the white player \<open>constructor\<close>: the test \<^verbatim>\<open>!stats[white]\<close> finds
  the inherited property, no entry is created, and the increments of \<open>games\<close> and \<open>w\<close> are
  made on the inherited function.
\<close>

theorem tally_inherited_white:
  "truthy (white_of constructor_game) \<and> truthy (black_of constructor_game) \<and>
   fetchTournamentGames [constructor_game] = [(''bob'', \<lparr>w = 0, d = 0, l = 1, games = 1\<rparr>)]"
  unfolding constructor_game_def by code_simp

text \<open>
  Claim C8 fails in the code. The tally of the single game won by \<open>bob\<close> against \<open>toString\<close>
  has one win and no loss.
\<close>

theorem tally_inherited_black:
  "fetchTournamentGames [toString_game] = [(''bob'', \<lparr>w = 1, d = 0, l = 0, games = 1\<rparr>)] \<and>
   sum_over w (fetchTournamentGames [toString_game]) = 1 \<and>
   sum_over l (fetchTournamentGames [toString_game]) = 0"
  unfolding toString_game_def by code_simp


section \<open>Tournament Filter\<close>

text \<open>A value of a JSON field as the code observes it: missing, \<^verbatim>\<open>null\<close>, a finite
  number, or a value whose conversion by \<^verbatim>\<open>Number\<close> is not finite (a non-numeric string,
  an object). Strings that spell a number are not modelled.\<close>

datatype jsval = Undefined | Null | Num rat | NonNumeric

text \<open>The normalised tournament built by \<^verbatim>\<open>loadTournaments\<close>; \<open>tid\<close> is its \<^verbatim>\<open>id\<close>.\<close>

record tournament =
  tid :: string
  fullName :: string
  startsAt :: rat
  minutes :: jsval
  nbPlayers :: jsval

subsection \<open>\<^verbatim>\<open>new Date(ms)\<close>, \<^verbatim>\<open>getUTCFullYear\<close> and \<^verbatim>\<open>getUTCMonth\<close>\<close>

text \<open>The time value of a Date is the argument truncated to an integer, or NaN (here
  \<open>None\<close>) when its magnitude exceeds \<open>8.64e15\<close> milliseconds.\<close>

definition truncate :: "rat \<Rightarrow> int" where
  "truncate r = (if r < 0 then \<lceil>r\<rceil> else \<lfloor>r\<rfloor>)"

definition TimeClip :: "rat \<Rightarrow> int option" where
  "TimeClip v = (if \<bar>v\<bar> > 8640000000000000 then None else Some (truncate v))"

definition Day :: "int \<Rightarrow> int" where
  "Day t = t div 86400000"

definition DaysInYear :: "int \<Rightarrow> int" where
  "DaysInYear y =
    (if y mod 4 \<noteq> 0 then 365 else if y mod 100 \<noteq> 0 then 366
     else if y mod 400 \<noteq> 0 then 365 else 366)"

definition DayFromYear :: "int \<Rightarrow> int" where
  "DayFromYear y = 365 * (y - 1970) + (y - 1969) div 4 - (y - 1901) div 100 + (y - 1601) div 400"

text \<open>The proleptic Gregorian year of a time value, computed from the day number in
  400-year eras that start on 1 March.\<close>

definition YearFromTime :: "int \<Rightarrow> int" where
  "YearFromTime t =
    (let z = Day t + 719468;
         era = z div 146097;
         doe = z mod 146097;
         yoe = (doe - doe div 1460 + doe div 36524 - doe div 146096) div 365;
         doy = doe - (365 * yoe + yoe div 4 - yoe div 100);
         mp = (5 * doy + 2) div 153
     in yoe + era * 400 + (if mp < 10 then 0 else 1))"

text \<open>The month, \<open>0\<close> to \<open>11\<close>, from the day within the year.\<close>

definition MonthFromTime :: "int \<Rightarrow> int" where
  "MonthFromTime t =
    (let dy = Day t - DayFromYear (YearFromTime t);
         leap = (if DaysInYear (YearFromTime t) = 366 then 1 else 0)
     in if dy < 31 then 0
        else if dy < 59 + leap then 1
        else if dy < 90 + leap then 2
        else if dy < 120 + leap then 3
        else if dy < 151 + leap then 4
        else if dy < 181 + leap then 5
        else if dy < 212 + leap then 6
        else if dy < 243 + leap then 7
        else if dy < 273 + leap then 8
        else if dy < 304 + leap then 9
        else if dy < 334 + leap then 10
        else 11)"

subsection \<open>Strings\<close>

text \<open>The decimal digits of a non-negative integer.\<close>

function digits :: "int \<Rightarrow> string" where
  "digits n =
    (if n < 10 then [''0123456789'' ! nat n]
     else digits (n div 10) @ [''0123456789'' ! nat (n mod 10)])"
  by pat_completeness auto
termination
  by (relation "measure nat") auto

text \<open>An integer in a template literal or under \<^verbatim>\<open>String\<close>.\<close>

definition number_to_string :: "int \<Rightarrow> string" where
  "number_to_string i = (if i < 0 then CHR ''-'' # digits (- i) else digits i)"

text \<open>\<^verbatim>\<open>s.padStart(2, "0")\<close>\<close>

definition padStart2 :: "string \<Rightarrow> string" where
  "padStart2 s = (if length s < 2 then replicate (2 - length s) CHR ''0'' @ s else s)"

text \<open>\<^verbatim>\<open>toLowerCase\<close> on the letters \<open>A\<close> to \<open>Z\<close>; every other character is kept
  (the case mapping of characters outside ASCII is not modelled).\<close>

text \<open>A decimal digit, and the number that a string of digits spells.\<close>

definition is_digit :: "char \<Rightarrow> bool" where
  "is_digit c = (48 \<le> (of_char c :: int) \<and> (of_char c :: int) \<le> 57)"

definition decimal_value :: "string \<Rightarrow> int" where
  "decimal_value s = foldl (\<lambda>a c. 10 * a + (of_char c - 48)) 0 s"



text \<open>\<^verbatim>\<open>hay.includes(needle)\<close>: the needle starts at some position of the hay.\<close>

fun str_includes :: "string \<Rightarrow> string \<Rightarrow> bool" where
  "str_includes [] needle = (needle = [])"
| "str_includes (c # hay) needle = (prefix needle (c # hay) \<or> str_includes hay needle)"

subsection \<open>The filter\<close>

text \<open>A Date with a NaN time value has a NaN year and month, and both print as
  \<^verbatim>\<open>NaN\<close>.\<close>

definition formatMonthKey :: "rat \<Rightarrow> string" where
  "formatMonthKey ms =
    (case TimeClip ms of
       None \<Rightarrow> ''NaN-NaN''
     | Some t \<Rightarrow>
         number_to_string (YearFromTime t) @ ''-'' @
         padStart2 (number_to_string (MonthFromTime t + 1)))"

definition byMonth :: "string \<Rightarrow> tournament \<Rightarrow> bool" where
  "byMonth monthFilter t = (monthFilter = [] \<or> formatMonthKey (startsAt t) = monthFilter)"

definition byName :: "(string \<Rightarrow> string) \<Rightarrow> string \<Rightarrow> tournament \<Rightarrow> bool" where
  "byName toLowerCase nameFilter t =
    (nameFilter = [] \<or> str_includes (toLowerCase (fullName t)) (toLowerCase nameFilter))"

definition filterTournaments ::
  "(string \<Rightarrow> string) \<Rightarrow> string \<Rightarrow> string \<Rightarrow> tournament list \<Rightarrow> tournament list" where
  "filterTournaments toLowerCase monthFilter nameFilter list =
    filter (\<lambda>t. byMonth monthFilter t \<and> byName toLowerCase nameFilter t) list"


lemma subseq_filterTournaments: "subseq (filterTournaments lc mf nf ts) ts"
  by (simp add: filterTournaments_def)

subsection \<open>The form of the month key\<close>

declare digits.simps [simp del]














text \<open>Three tournaments: 2 December 2023, 14 November 2023 and 1 March 2024 (UTC).\<close>

definition example_tournaments :: "tournament list" where
  "example_tournaments =
    [\<lparr>tid = ''t3'', fullName = ''Gambit Winter Arena'', startsAt = 1701500000000,
       minutes = Num 60, nbPlayers = Num 12\<rparr>,
     \<lparr>tid = ''t2'', fullName = ''Gambit Monthly Arena'', startsAt = 1700000000000,
       minutes = Num 60, nbPlayers = Num 20\<rparr>,
     \<lparr>tid = ''t1'', fullName = ''Team Blitz'', startsAt = 1709251200000,
       minutes = Num 45, nbPlayers = Undefined\<rparr>]"





section \<open>Timestamp normalisation\<close>

text \<open>\<^verbatim>\<open>Number(value)\<close>, with \<open>None\<close> for a result that is not finite.\<close>

fun to_number :: "jsval \<Rightarrow> rat option" where
  "to_number Undefined = None"
| "to_number Null = Some 0"
| "to_number (Num r) = Some r"
| "to_number NonNumeric = None"

text \<open>\<open>now\<close> is the reading of \<^verbatim>\<open>Date.now()\<close>.\<close>

definition normalizeMs :: "rat \<Rightarrow> jsval \<Rightarrow> rat" where
  "normalizeMs now v =
    (case to_number v of
       None \<Rightarrow> now
     | Some num \<Rightarrow> if num < 10000000000 then num * 1000 else num)"

text \<open>Truthiness of a field value: missing, \<^verbatim>\<open>null\<close> and the number zero are falsy.\<close>

fun val_truthy :: "jsval \<Rightarrow> bool" where
  "val_truthy Undefined = False"
| "val_truthy Null = False"
| "val_truthy (Num r) = (r \<noteq> 0)"
| "val_truthy NonNumeric = True"

definition val_or :: "jsval \<Rightarrow> jsval \<Rightarrow> jsval" where
  "val_or a b = (if val_truthy a then a else b)"

text \<open>An entry of the decoded tournament list.\<close>

record item =
  item_id :: string
  item_fullName :: "string option"
  item_name :: "string option"
  item_startsAt :: jsval
  item_createdAt :: jsval
  item_minutes :: jsval
  item_nbPlayers :: jsval

text \<open>The raw timestamp of an entry: \<^verbatim>\<open>item.startsAt || item.createdAt\<close>.\<close>

definition raw_timestamp :: "item \<Rightarrow> jsval" where
  "raw_timestamp it = val_or (item_startsAt it) (item_createdAt it)"

text \<open>The object built for each entry in \<^verbatim>\<open>loadTournaments\<close>.\<close>

definition make_tournament :: "rat \<Rightarrow> item \<Rightarrow> tournament" where
  "make_tournament now it =
    \<lparr>tid = item_id it,
     fullName = the (js_or (js_or (item_fullName it) (item_name it)) (Some ''Untitled Tournament'')),
     startsAt = normalizeMs now (val_or (raw_timestamp it) (Num now)),
     minutes = item_minutes it,
     nbPlayers = item_nbPlayers it\<rparr>"

section \<open>Player Aggregator\<close>

text \<open>A row of a tournament's results feed, with the fields the aggregator reads:
  \<^verbatim>\<open>username\<close>, \<^verbatim>\<open>name\<close>, \<^verbatim>\<open>user.name\<close>, \<^verbatim>\<open>user.id\<close>, \<^verbatim>\<open>score\<close>, \<^verbatim>\<open>points\<close>,
  \<^verbatim>\<open>performance\<close>, \<^verbatim>\<open>perf\<close>, \<^verbatim>\<open>performanceRating\<close>.\<close>

record player =
  username :: "string option"
  player_name :: "string option"
  user_name :: "string option"
  user_id :: "string option"
  score :: jsval
  player_points :: jsval
  player_performance :: jsval
  perf :: jsval
  performanceRating :: jsval

definition getUserName :: "player \<Rightarrow> string option" where
  "getUserName entry =
    js_or (js_or (js_or (username entry) (player_name entry)) (user_name entry)) (user_id entry)"

text \<open>\<^verbatim>\<open>a ?? b\<close>: the right operand only when the left one is missing or \<^verbatim>\<open>null\<close>.\<close>

fun nullish_or :: "jsval \<Rightarrow> jsval \<Rightarrow> jsval" where
  "nullish_or Undefined b = b"
| "nullish_or Null b = b"
| "nullish_or a b = a"

definition safeNumber :: "jsval \<Rightarrow> rat" where
  "safeNumber v = (case to_number v of None \<Rightarrow> 0 | Some r \<Rightarrow> r)"

section \<open>Numbers\<close>

text \<open>A number of the program is an IEEE-754 double: a rational number \<open>m * 2^e\<close> with
  \<open>\<bar>m\<bar> < 2^53\<close> and \<open>- 1074 \<le> e\<close>. The operators \<^verbatim>\<open>+\<close>, \<^verbatim>\<open>*\<close> and \<^verbatim>\<open>/\<close> compute the exact result
  and round it to the nearest double, a tie to the one with an even significand.
  \<open>binade x\<close> is the exponent \<open>e\<close> with \<open>2^e \<le> \<bar>x\<bar> < 2^(e+1)\<close>, found from the bit lengths of
  numerator and denominator; below \<open>2^(- 1022)\<close> the doubles are \<open>2^(- 1074)\<close> apart. Results
  beyond the largest double (\<^verbatim>\<open>Infinity\<close>) and \<^verbatim>\<open>NaN\<close> are not modelled; the only division by
  zero and the only non-finite inputs of the code are guarded (\<^verbatim>\<open>safeNumber\<close>, \<^verbatim>\<open>games > 0\<close>,
  \<^verbatim>\<open>perfWeight > 0\<close>).\<close>

function bit_length :: "int \<Rightarrow> int" where
  "bit_length n = (if n \<le> 0 then 0 else 1 + bit_length (n div 2))"
  by auto
termination by (relation "measure nat") auto

declare bit_length.simps [simp del]

definition pow2 :: "int \<Rightarrow> rat" where
  "pow2 e = (if 0 \<le> e then 2 ^ nat e else 1 / 2 ^ nat (- e))"

definition binade :: "rat \<Rightarrow> int" where
  "binade x =
    (let e = bit_length (fst (quotient_of \<bar>x\<bar>)) - bit_length (snd (quotient_of \<bar>x\<bar>))
     in if \<bar>x\<bar> < pow2 e then e - 1 else e)"

definition round_half_even :: "rat \<Rightarrow> int" where
  "round_half_even z =
    (let f = \<lfloor>z\<rfloor>; r = z - of_int f
     in if r < 1 / 2 then f else if 1 / 2 < r then f + 1 else if even f then f else f + 1)"

text \<open>Up to \<open>2^53\<close> in magnitude the doubles of the binade of \<open>x\<close> are the multiples of
  \<open>2^(- k)\<close>, \<open>k = 52 - binade x\<close> (at most \<open>1074\<close>); above, they are the multiples of
  \<open>2^(binade x - 52)\<close>.\<close>

definition round64 :: "rat \<Rightarrow> rat" where
  "round64 x =
    (if \<bar>x\<bar> \<le> 9007199254740992
     then (let k = nat (52 - max (binade x) (- 1022))
           in of_int (round_half_even (x * 2 ^ k)) / 2 ^ k)
     else (let j = nat (binade x - 52)
           in of_int (round_half_even (x / 2 ^ j)) * 2 ^ j))"

definition js_add :: "rat \<Rightarrow> rat \<Rightarrow> rat" where
  "js_add x y = round64 (x + y)"

definition js_mul :: "rat \<Rightarrow> rat \<Rightarrow> rat" where
  "js_mul x y = round64 (x * y)"

definition js_div :: "rat \<Rightarrow> rat \<Rightarrow> rat" where
  "js_div x y = round64 (x / y)"

text \<open>A number is an integer.\<close>

definition integral :: "rat \<Rightarrow> bool" where
  "integral x = (of_int \<lfloor>x\<rfloor> = x)"

text \<open>The running totals; \<open>wins\<close>, \<open>draws\<close> and \<open>losses\<close> are the fields \<^verbatim>\<open>w\<close>, \<^verbatim>\<open>d\<close> and
  \<^verbatim>\<open>l\<close> of the aggregate. The second argument of \<^verbatim>\<open>sumStats\<close> has these fields, an
  entry of the aggregate has \<^verbatim>\<open>name\<close> as well.\<close>

record totals =
  points :: rat
  wins :: nat
  draws :: nat
  losses :: nat
  tournaments :: nat
  perfSum :: rat
  perfWeight :: rat

record entry = totals +
  name :: string

definition sumStats :: "'a totals_scheme \<Rightarrow> totals \<Rightarrow> 'a totals_scheme" where
  "sumStats target update =
    target\<lparr>points := js_add (points target) (points update),
           wins := wins target + wins update,
           draws := draws target + draws update,
           losses := losses target + losses update,
           tournaments := tournaments target + tournaments update,
           perfSum := js_add (perfSum target) (perfSum update),
           perfWeight := js_add (perfWeight target) (perfWeight update)\<rparr>"

text \<open>\<^verbatim>\<open>stats.games > 0 ? stats.games : points || 1\<close>\<close>

definition weight_of :: "stats \<Rightarrow> rat \<Rightarrow> rat" where
  "weight_of s pts = (if games s > 0 then of_nat (games s) else if pts \<noteq> 0 then pts else 1)"

definition row_points :: "player \<Rightarrow> rat" where
  "row_points pl = safeNumber (nullish_or (score pl) (player_points pl))"

definition row_performance :: "player \<Rightarrow> rat" where
  "row_performance pl =
    safeNumber (nullish_or (nullish_or (player_performance pl) (perf pl)) (performanceRating pl))"

text \<open>The object handed to \<^verbatim>\<open>sumStats\<close> for a row whose name resolved to \<open>nm\<close>;
  \<open>gm\<close> is the tournament's tally, read by \<^verbatim>\<open>games[name] || { w: 0, d: 0, l: 0, games: 0 }\<close>.
  For a name that is an inherited key the code reads an inherited function there, whose
  \<^verbatim>\<open>games\<close> is no positive number, so that the weight is that of the zero tally; such a
  row changes no own property of the aggregate (see \<open>aggregate_player\<close>).\<close>

definition row_update :: "stats obj \<Rightarrow> string \<Rightarrow> player \<Rightarrow> totals" where
  "row_update gm nm pl =
    (let pts = row_points pl;
         performance = row_performance pl;
         s = stats_of gm nm;
         weight = weight_of s pts
     in \<lparr>points = pts, wins = w s, draws = d s, losses = l s, tournaments = 1,
         perfSum = js_mul performance weight, perfWeight = weight\<rparr>)"

definition new_entry :: "string \<Rightarrow> entry" where
  "new_entry nm =
    \<lparr>points = 0, wins = 0, draws = 0, losses = 0, tournaments = 0, perfSum = 0, perfWeight = 0,
     name = nm\<rparr>"

text \<open>\<^verbatim>\<open>if (!aggregate[name]) aggregate[name] = { name, points: 0, ... }\<close>: an entry is
  created only when the name is neither an own nor an inherited property.\<close>

definition init_entry :: "string \<Rightarrow> entry obj \<Rightarrow> entry obj" where
  "init_entry nm agg =
    (case get_prop agg nm of Missing \<Rightarrow> AList.update nm (new_entry nm) agg | _ \<Rightarrow> agg)"

text \<open>One iteration of \<^verbatim>\<open>results.forEach\<close>. For a name that is an inherited key,
  \<^verbatim>\<open>sumStats\<close> adds to properties of the inherited function and the own properties of
  the aggregate stay as they are.\<close>

definition aggregate_player :: "stats obj \<Rightarrow> entry obj \<Rightarrow> player \<Rightarrow> entry obj" where
  "aggregate_player gm agg pl =
    (let nm = getUserName pl in
     if \<not> truthy nm then agg
     else modify (the nm) (\<lambda>e. sumStats e (row_update gm (the nm) pl)) (init_entry (the nm) agg))"

text \<open>\<^verbatim>\<open>resultsByTournament[t.id] || []\<close> and \<^verbatim>\<open>gamesByTournament[t.id] || {}\<close>\<close>
text \<open>What evaluating the aggregate can raise. \<open>NotModelled\<close> stands for a run that the
  definitions below do not follow: the tally of a tournament read from an inherited
  function.\<close>

datatype error = TypeError | NotModelled

text \<open>\<^verbatim>\<open>resultsByTournament[t.id] || []\<close>, on which \<^verbatim>\<open>forEach\<close> is called: an id that is
  an inherited key and has no results of its own yields an inherited function, which has
  no \<^verbatim>\<open>forEach\<close>.\<close>

definition results_of :: "player list obj \<Rightarrow> tournament \<Rightarrow> error + player list" where
  "results_of rb t =
    (case get_prop rb (tid t) of Own rs \<Rightarrow> Inr rs | Missing \<Rightarrow> Inr [] | Inherited \<Rightarrow> Inl TypeError)"

text \<open>\<^verbatim>\<open>gamesByTournament[t.id] || {}\<close>\<close>

definition games_of :: "stats obj obj \<Rightarrow> tournament \<Rightarrow> error + stats obj" where
  "games_of gb t =
    (case get_prop gb (tid t) of Own gm \<Rightarrow> Inr gm | Missing \<Rightarrow> Inr [] | Inherited \<Rightarrow> Inl NotModelled)"

text \<open>One iteration of \<^verbatim>\<open>filteredTournaments.forEach\<close>, and the whole loop from the
  empty aggregate; an exception ends it.\<close>

definition aggregate_tournament ::
  "player list obj \<Rightarrow> stats obj obj \<Rightarrow> entry obj \<Rightarrow> tournament \<Rightarrow> error + entry obj" where
  "aggregate_tournament rb gb agg t =
    (case results_of rb t of
       Inl e \<Rightarrow> Inl e
     | Inr results \<Rightarrow>
        (case games_of gb t of
           Inl e \<Rightarrow> Inl e
         | Inr gm \<Rightarrow> Inr (foldl (aggregate_player gm) agg results)))"

fun aggregate_from ::
  "player list obj \<Rightarrow> stats obj obj \<Rightarrow> entry obj \<Rightarrow> tournament list \<Rightarrow> error + entry obj" where
  "aggregate_from rb gb agg [] = Inr agg"
| "aggregate_from rb gb agg (t # ts) =
    (case aggregate_tournament rb gb agg t of
       Inl e \<Rightarrow> Inl e
     | Inr agg' \<Rightarrow> aggregate_from rb gb agg' ts)"

definition aggregate :: "player list obj \<Rightarrow> stats obj obj \<Rightarrow> tournament list \<Rightarrow> error + entry obj" where
  "aggregate rb gb ts = aggregate_from rb gb [] ts"

section \<open>Metric Finalizer and sort\<close>

text \<open>An output row: the entry with \<^verbatim>\<open>games\<close> (here \<open>row_games\<close>), \<^verbatim>\<open>winRate\<close> and
  \<^verbatim>\<open>performance\<close>.\<close>

record row = entry +
  row_games :: nat
  winRate :: rat
  performance :: rat

definition finalize :: "entry \<Rightarrow> row" where
  "finalize e =
    (let g = wins e + draws e + losses e in
     \<lparr>points = points e, wins = wins e, draws = draws e, losses = losses e,
      tournaments = tournaments e, perfSum = perfSum e, perfWeight = perfWeight e,
      name = name e,
      row_games = g,
      winRate = (if g > 0 then js_mul (js_div (of_nat (wins e)) (of_nat g)) 100 else 0),
      performance = (if perfWeight e > 0 then js_div (perfSum e) (perfWeight e) else 0)\<rparr>)"

subsection \<open>\<^verbatim>\<open>Object.values\<close>\<close>

text \<open>The own properties of an object are listed with the array indices first, in
  ascending numeric order, and then the other string keys in insertion order. An array
  index is the canonical decimal spelling of an integer from \<open>0\<close> to \<open>2^32 - 2\<close>.\<close>
definition is_array_index :: "string \<Rightarrow> bool" where
  "is_array_index s =
    (s \<noteq> [] \<and> list_all is_digit s \<and> (s = ''0'' \<or> hd s \<noteq> CHR ''0'') \<and>
     decimal_value s \<le> 4294967294)"

definition object_entries :: "'a obj \<Rightarrow> 'a obj" where
  "object_entries ob =
    sort_key (\<lambda>kv. decimal_value (fst kv)) (filter (\<lambda>kv. is_array_index (fst kv)) ob)
    @ filter (\<lambda>kv. \<not> is_array_index (fst kv)) ob"

definition object_values :: "'a obj \<Rightarrow> 'a list" where
  "object_values ob = map snd (object_entries ob)"

subsection \<open>\<^verbatim>\<open>Array.prototype.sort\<close>\<close>

text \<open>The sort is stable. With a comparator that orders the elements consistently its
  result is the one that inserting the elements from the right, each before the first
  element it does not follow, computes.\<close>

fun insert_by :: "('a \<Rightarrow> 'a \<Rightarrow> rat) \<Rightarrow> 'a \<Rightarrow> 'a list \<Rightarrow> 'a list" where
  "insert_by cmp x [] = [x]"
| "insert_by cmp x (y # ys) = (if cmp x y \<le> 0 then x # y # ys else y # insert_by cmp x ys)"

definition js_sort :: "('a \<Rightarrow> 'a \<Rightarrow> rat) \<Rightarrow> 'a list \<Rightarrow> 'a list" where
  "js_sort cmp xs = foldr (insert_by cmp) xs []"

text \<open>\<^verbatim>\<open>(a, b) => b.points - a.points || b.winRate - a.winRate\<close>. The difference of
  two doubles is rounded, but it is zero only when the two are equal and it has the sign
  of the exact difference, which is all that the sort reads of it.\<close>

definition compare_rows :: "row \<Rightarrow> row \<Rightarrow> rat" where
  "compare_rows a b =
    (if points b - points a \<noteq> 0 then points b - points a else winRate b - winRate a)"

section \<open>Aggregation Orchestrator\<close>

text \<open>The memoised \<^verbatim>\<open>aggregatedStats\<close> as a function of the filtered tournaments and the
  two per-tournament objects, and the whole pipeline from the unfiltered list.\<close>

definition aggregatedStats ::
  "tournament list \<Rightarrow> player list obj \<Rightarrow> stats obj obj \<Rightarrow> error + row list" where
  "aggregatedStats filteredTournaments rb gb =
    (case aggregate rb gb filteredTournaments of
       Inl e \<Rightarrow> Inl e
     | Inr agg \<Rightarrow> Inr (js_sort compare_rows (map finalize (object_values agg))))"

definition orchestrator ::
  "(string \<Rightarrow> string) \<Rightarrow> string \<Rightarrow> string \<Rightarrow> tournament list \<Rightarrow> player list obj \<Rightarrow> stats obj obj
    \<Rightarrow> error + row list" where
  "orchestrator toLowerCase monthFilter nameFilter ts rb gb =
    aggregatedStats (filterTournaments toLowerCase monthFilter nameFilter ts) rb gb"


section \<open>Rounding\<close>

text \<open>The double nearest to \<open>1/10\<close>, and two sums that depend on the order of their terms.\<close>

lemma round64_eval:
  "round64 (1 / 10) = 3602879701896397 / 36028797018963968"
  "js_add (js_add 9007199254740992 1) 1 = 9007199254740992"
  "js_add (js_add 1 1) 9007199254740992 = 9007199254740994"
  by code_simp+






lemma integral_of_nat [simp]: "integral (of_nat n)"
  by (simp add: integral_def)

lemma integral_numerals [simp]: "integral 0" "integral 1" "integral (numeral v)"
  by (simp_all add: integral_def)








subsection \<open>The fold as a list of contributions\<close>

text \<open>The own results and the own tally of a tournament, empty when there are none.\<close>

definition own_results :: "player list obj \<Rightarrow> tournament \<Rightarrow> player list" where
  "own_results rb t = (case map_of rb (tid t) of None \<Rightarrow> [] | Some rs \<Rightarrow> rs)"

definition own_games :: "stats obj obj \<Rightarrow> tournament \<Rightarrow> stats obj" where
  "own_games gb t = (case map_of gb (tid t) of None \<Rightarrow> [] | Some gm \<Rightarrow> gm)"

text \<open>No tournament reads its results or its tally from an inherited property: every id
  either has an entry of its own in the object or is not an inherited key.\<close>

definition plain_ids :: "player list obj \<Rightarrow> stats obj obj \<Rightarrow> tournament list \<Rightarrow> bool" where
  "plain_ids rb gb ts =
    list_all (\<lambda>t. get_prop rb (tid t) \<noteq> Inherited \<and> get_prop gb (tid t) \<noteq> Inherited) ts"

text \<open>The rows of one tournament whose name resolves, each with its resolved
  name and the update it hands to \<^verbatim>\<open>sumStats\<close>; then the rows of a tournament
  sequence, in fold order.\<close>

definition tournament_rows :: "player list obj \<Rightarrow> stats obj obj \<Rightarrow> tournament \<Rightarrow> (string \<times> totals) list" where
  "tournament_rows rb gb t =
    map (\<lambda>pl. (the (getUserName pl), row_update (own_games gb t) (the (getUserName pl)) pl))
      (filter (\<lambda>pl. truthy (getUserName pl)) (own_results rb t))"

definition all_rows :: "player list obj \<Rightarrow> stats obj obj \<Rightarrow> tournament list \<Rightarrow> (string \<times> totals) list" where
  "all_rows rb gb ts = concat (map (tournament_rows rb gb) ts)"

text \<open>The effect of one row on the aggregate.\<close>

definition add_row :: "entry obj \<Rightarrow> string \<times> totals \<Rightarrow> entry obj" where
  "add_row agg r = modify (fst r) (\<lambda>e. sumStats e (snd r)) (init_entry (fst r) agg)"

text \<open>The entry of a player, or the fresh entry when there is none yet.\<close>

definition entry_of :: "entry obj \<Rightarrow> string \<Rightarrow> entry" where
  "entry_of agg k = (case map_of agg k of None \<Rightarrow> new_entry k | Some e \<Rightarrow> e)"

text \<open>A row of the name \<open>k\<close> changes the aggregate: \<open>k\<close> is an own key or not an inherited
  one.\<close>

definition active :: "entry obj \<Rightarrow> string \<Rightarrow> bool" where
  "active agg k = (\<not> inherited k \<or> map_of agg k \<noteq> None)"

text \<open>Keys in order of first insertion.\<close>

definition insert_key :: "string list \<Rightarrow> string \<Rightarrow> string list" where
  "insert_key ks k = (if k \<in> set ks then ks else ks @ [k])"

lemma foldl_aggregate_player:
  "foldl (aggregate_player gm) agg ps =
   foldl add_row agg
     (map (\<lambda>pl. (the (getUserName pl), row_update gm (the (getUserName pl)) pl))
        (filter (\<lambda>pl. truthy (getUserName pl)) ps))"
  by (induction ps arbitrary: agg) (simp_all add: aggregate_player_def add_row_def Let_def)

lemma aggregate_tournament_rows:
  "aggregate_tournament rb gb agg t =
    (if get_prop rb (tid t) = Inherited then Inl TypeError
     else if get_prop gb (tid t) = Inherited then Inl NotModelled
     else Inr (foldl add_row agg (tournament_rows rb gb t)))"
  by (simp add: aggregate_tournament_def results_of_def games_of_def tournament_rows_def
      foldl_aggregate_player own_results_def own_games_def get_prop_def
      split: option.splits lookup.splits)

lemma aggregate_from_rows:
  "aggregate_from rb gb agg ts = Inr agg' \<longleftrightarrow>
     plain_ids rb gb ts \<and> agg' = foldl add_row agg (all_rows rb gb ts)"
  by (induction ts arbitrary: agg)
     (auto simp: plain_ids_def all_rows_def aggregate_tournament_rows)

lemma aggregate_rows:
  "aggregate rb gb ts = Inr agg \<longleftrightarrow>
     plain_ids rb gb ts \<and> agg = foldl add_row [] (all_rows rb gb ts)"
  by (simp add: aggregate_def aggregate_from_rows)

lemma aggregate_TypeError:
  assumes "\<forall>u \<in> set ts. get_prop gb (tid u) \<noteq> Inherited"
    and "\<exists>t \<in> set ts. get_prop rb (tid t) = Inherited"
  shows "aggregate_from rb gb agg ts = Inl TypeError"
  using assms
  by (induction ts arbitrary: agg) (auto simp: aggregate_tournament_rows)

lemma map_of_init_entry:
  "map_of (init_entry k agg) p =
    (if p = k \<and> \<not> inherited k then Some (entry_of agg k) else map_of agg p)"
  by (simp add: init_entry_def get_prop_def entry_of_def update_conv' split: option.splits)

lemma map_of_add_row:
  "map_of (add_row agg r) k =
    (if k = fst r \<and> active agg k then Some (sumStats (entry_of agg k) (snd r)) else map_of agg k)"
  by (auto simp: add_row_def map_of_modify map_of_init_entry active_def entry_of_def)

lemma entry_of_add_row:
  "entry_of (add_row agg r) k =
    (if k = fst r \<and> active agg k then sumStats (entry_of agg k) (snd r) else entry_of agg k)"
  by (auto simp: entry_of_def map_of_add_row)

lemma active_add_row: "active (add_row agg r) k = active agg k"
  by (auto simp: active_def map_of_add_row)

lemma filter_key_empty: "k \<notin> fst ` set rs \<Longrightarrow> filter (\<lambda>r. fst r = k) rs = []"
  by (auto simp: filter_empty_conv)

lemma map_of_foldl_add_row:
  "map_of (foldl add_row agg rs) k =
    (if k \<in> fst ` set rs \<and> active agg k
     then Some (foldl sumStats (entry_of agg k) (map snd (filter (\<lambda>r. fst r = k) rs)))
     else map_of agg k)"
proof (induction rs arbitrary: agg)
  case Nil
  show ?case by simp
next
  case (Cons r rs)
  show ?case
    by (auto simp: Cons.IH entry_of_add_row map_of_add_row active_add_row filter_key_empty)
qed

lemma keys_init_entry:
  "map fst (init_entry k agg) = (if inherited k then map fst agg else insert_key (map fst agg) k)"
proof (cases "map_of agg k")
  case None
  then have "k \<notin> fst ` set agg" by (simp add: map_of_eq_None_iff)
  with None show ?thesis by (simp add: init_entry_def get_prop_def insert_key_def update_keys)
next
  case (Some e)
  then have "k \<in> fst ` set agg" by (rule map_of_Some_key)
  with Some show ?thesis by (simp add: init_entry_def get_prop_def insert_key_def)
qed

lemma keys_modify_list: "map fst (modify k f agg) = map fst agg"
proof (cases "map_of agg k")
  case None
  then show ?thesis by (simp add: modify_def)
next
  case (Some e)
  then have "k \<in> fst ` set agg" by (rule map_of_Some_key)
  with Some show ?thesis by (simp add: modify_def update_keys)
qed

lemma keys_add_row:
  "map fst (add_row agg r) =
    (if inherited (fst r) then map fst agg else insert_key (map fst agg) (fst r))"
  by (simp add: add_row_def keys_modify_list keys_init_entry)

lemma keys_foldl_add_row:
  "map fst (foldl add_row agg rs) =
    foldl insert_key (map fst agg) (filter (\<lambda>k. \<not> inherited k) (map fst rs))"
  by (induction rs arbitrary: agg) (simp_all add: keys_add_row)

lemma distinct_foldl_insert_key: "distinct ks \<Longrightarrow> distinct (foldl insert_key ks xs)"
  by (induction xs arbitrary: ks) (simp_all add: insert_key_def)

lemma set_foldl_insert_key: "set (foldl insert_key ks xs) = set ks \<union> set xs"
  by (induction xs arbitrary: ks) (auto simp: insert_key_def)

lemma foldl_sumStats:
  "foldl sumStats e us =
     e\<lparr>points := foldl js_add (points e) (map points us),
       wins := wins e + sum_list (map wins us),
       draws := draws e + sum_list (map draws us),
       losses := losses e + sum_list (map losses us),
       tournaments := tournaments e + sum_list (map tournaments us),
       perfSum := foldl js_add (perfSum e) (map perfSum us),
       perfWeight := foldl js_add (perfWeight e) (map perfWeight us)\<rparr>"
  by (induction us arbitrary: e) (simp_all add: sumStats_def add.assoc)

subsection \<open>The entry of one player\<close>

text \<open>The rows of a player \<open>nm\<close>: every result row of the tournament sequence whose
  name resolves to \<open>nm\<close>, in fold order and with repetitions, paired with its tournament;
  the updates that these rows hand to \<^verbatim>\<open>sumStats\<close>; and the entry that the fold builds
  from them.\<close>

definition resolves_to :: "string \<Rightarrow> player \<Rightarrow> bool" where
  "resolves_to nm pl = (getUserName pl = Some nm \<and> nm \<noteq> [])"

definition player_rows :: "player list obj \<Rightarrow> tournament list \<Rightarrow> string \<Rightarrow> (tournament \<times> player) list" where
  "player_rows rb ts nm =
    concat (map (\<lambda>t. map (Pair t) (filter (resolves_to nm) (own_results rb t))) ts)"

definition player_updates :: "player list obj \<Rightarrow> stats obj obj \<Rightarrow> tournament list \<Rightarrow> string \<Rightarrow> totals list" where
  "player_updates rb gb ts nm =
    map (\<lambda>tp. row_update (own_games gb (fst tp)) nm (snd tp)) (player_rows rb ts nm)"

definition player_entry :: "player list obj \<Rightarrow> stats obj obj \<Rightarrow> tournament list \<Rightarrow> string \<Rightarrow> entry" where
  "player_entry rb gb ts nm = foldl sumStats (new_entry nm) (player_updates rb gb ts nm)"

lemma tournament_rows_for:
  "map snd (filter (\<lambda>r. fst r = nm) (tournament_rows rb gb t)) =
   map (\<lambda>pl. row_update (own_games gb t) nm pl) (filter (resolves_to nm) (own_results rb t))"
proof -
  have "map snd (filter (\<lambda>r. fst r = nm)
          (map (\<lambda>pl. (the (getUserName pl), row_update gm (the (getUserName pl)) pl))
             (filter (\<lambda>pl. truthy (getUserName pl)) ps))) =
        map (\<lambda>pl. row_update gm nm pl) (filter (resolves_to nm) ps)" for gm ps
  proof (induction ps)
    case Nil
    show ?case by simp
  next
    case (Cons a ps)
    then show ?case
      by (cases "getUserName a") (auto simp: resolves_to_def)
  qed
  then show ?thesis by (simp add: tournament_rows_def)
qed

lemma all_rows_for:
  "map snd (filter (\<lambda>r. fst r = nm) (all_rows rb gb ts)) = player_updates rb gb ts nm"
  by (induction ts)
     (simp_all add: all_rows_def player_updates_def player_rows_def tournament_rows_for comp_def)

lemma key_in_all_rows:
  "nm \<in> fst ` set (all_rows rb gb ts) \<longleftrightarrow> player_rows rb ts nm \<noteq> []"
proof -
  have "nm \<in> fst ` set (all_rows rb gb ts) \<longleftrightarrow> filter (\<lambda>r. fst r = nm) (all_rows rb gb ts) \<noteq> []"
    by (auto simp: filter_empty_conv)
  also have "\<dots> \<longleftrightarrow> map snd (filter (\<lambda>r. fst r = nm) (all_rows rb gb ts)) \<noteq> []"
    by simp
  also have "\<dots> \<longleftrightarrow> player_rows rb ts nm \<noteq> []"
    by (simp only: all_rows_for player_updates_def map_is_Nil_conv)
  finally show ?thesis .
qed

lemma aggregate_entry:
  "aggregate rb gb ts = Inr agg \<Longrightarrow>
   map_of agg nm =
    (if player_rows rb ts nm = [] \<or> inherited nm then None
     else Some (player_entry rb gb ts nm))"
  by (simp add: aggregate_rows map_of_foldl_add_row key_in_all_rows all_rows_for entry_of_def
      active_def player_entry_def)

lemma aggregate_distinct: "aggregate rb gb ts = Inr agg \<Longrightarrow> distinct (map fst agg)"
  by (simp add: aggregate_rows keys_foldl_add_row distinct_foldl_insert_key)

lemma aggregate_mem:
  assumes "aggregate rb gb ts = Inr agg"
  shows "(nm, e) \<in> set agg \<longleftrightarrow>
     player_rows rb ts nm \<noteq> [] \<and> \<not> inherited nm \<and> e = player_entry rb gb ts nm"
proof -
  have "(nm, e) \<in> set agg \<longleftrightarrow> map_of agg nm = Some e"
    using aggregate_distinct [OF assms] by simp
  then show ?thesis
    by (auto simp: aggregate_entry [OF assms])
qed

lemma name_foldl_sumStats: "name (foldl sumStats e us) = name e"
  by (simp add: foldl_sumStats)

lemma name_finalize: "name (finalize e) = name e"
  by (simp add: finalize_def Let_def)

lemma name_player_entry: "name (player_entry rb gb ts nm) = nm"
  by (simp add: player_entry_def name_foldl_sumStats new_entry_def)


section \<open>Properties of the Player Aggregator\<close>

subsection \<open>The weight of a row\<close>

lemma entry_of_aggregate_player:
  assumes "getUserName pl = Some nm" "nm \<noteq> []"
  shows "entry_of (aggregate_player gm agg pl) k =
    (if k = nm \<and> active agg nm then sumStats (entry_of agg nm) (row_update gm nm pl)
     else entry_of agg k)"
  using assms entry_of_add_row [of agg "(nm, row_update gm nm pl)" k]
  by (auto simp: aggregate_player_def Let_def add_row_def)

lemma perfWeight_sumStats: "perfWeight (sumStats e u) = js_add (perfWeight e) (perfWeight u)"
  by (simp add: sumStats_def)

lemma perfWeight_row_update:
  "perfWeight (row_update gm nm pl) = weight_of (stats_of gm nm) (row_points pl)"
  by (simp add: row_update_def Let_def)

lemma weight_of_nonzero: "weight_of s pts \<noteq> 0"
  by (simp add: weight_of_def)

text \<open>A row with a negative score and no games.\<close>

definition negative_row :: player where
  "negative_row =
    \<lparr>username = Some ''bob'', player_name = None, user_name = None, user_id = None,
     score = Num (- 2), player_points = Undefined, player_performance = Num 1500,
     perf = Undefined, performanceRating = Undefined\<rparr>"

lemma negative_row_eval:
  "getUserName negative_row = Some ''bob''"
  "row_points negative_row = - 2"
  "row_performance negative_row = 1500"
  by (simp_all add: negative_row_def getUserName_def js_or_def row_points_def
      row_performance_def safeNumber_def)

lemma bob_not_inherited: "\<not> inherited ''bob''"
  by code_simp

text \<open>
  Claim C1, as the code has it. For every row whose name resolves and every tally of its
  tournament, the weight of the row is the tally's \<open>games\<close> when that is positive, otherwise
  the row's points when they are not zero (negative points included), otherwise \<open>1\<close>; it
  is never zero. The row adds its weight to the \<open>perfWeight\<close> of the player's entry (by
  the \<^verbatim>\<open>+=\<close> of \<^verbatim>\<open>sumStats\<close>), when the name is an own key of the aggregate or no
  inherited key.
\<close>

theorem performance_weight:
  "getUserName pl = Some nm \<and> nm \<noteq> [] \<longrightarrow>
     (\<not> inherited nm \<or> map_of agg nm \<noteq> None \<longrightarrow>
        perfWeight (entry_of (aggregate_player gm agg pl) nm) =
          js_add (perfWeight (entry_of agg nm)) (perfWeight (row_update gm nm pl))) \<and>
     perfWeight (row_update gm nm pl) =
       (if games (stats_of gm nm) > 0 then of_nat (games (stats_of gm nm))
        else if row_points pl \<noteq> 0 then row_points pl else 1) \<and>
     perfWeight (row_update gm nm pl) \<noteq> 0"
  by (simp add: entry_of_aggregate_player perfWeight_sumStats perfWeight_row_update weight_of_def
      active_def)

lemma js_add_negative: "js_add 0 (- 2) = - 2"
  by code_simp

theorem performance_weight_witness:
  "getUserName negative_row = Some ''bob'' \<and> ''bob'' \<noteq> [] \<and> \<not> inherited ''bob'' \<and>
   perfWeight (entry_of (aggregate_player [] [] negative_row) ''bob'') = - 2 \<and>
   perfWeight (row_update [] ''bob'' negative_row) = - 2"
  using performance_weight [of negative_row "''bob''" "[]" "[]"] bob_not_inherited
  by (simp add: negative_row_eval stats_of_def zero_stats_def entry_of_def new_entry_def
      js_add_negative)

text \<open>With a negative score and no games the weight is the score, not \<open>1\<close>: the rule
  ``the points when they are positive, otherwise \<open>1\<close>'' fails.\<close>

theorem performance_weight_counterexample:
  "perfWeight (row_update [] ''bob'' negative_row) \<noteq>
    (if games (stats_of [] ''bob'') > 0 then of_nat (games (stats_of [] ''bob''))
     else if row_points negative_row > 0 then row_points negative_row else 1)"
  by (simp add: perfWeight_row_update negative_row_eval weight_of_def stats_of_def zero_stats_def)


section \<open>Properties of the sort and of the output\<close>

lemma set_insert_by [simp]: "set (insert_by cmp x ys) = insert x (set ys)"
  by (induction ys) auto

lemma set_js_sort [simp]: "set (js_sort cmp xs) = set xs"
  by (induction xs) (simp_all add: js_sort_def)











subsection \<open>The order of \<^verbatim>\<open>Object.values\<close>\<close>

lemma set_object_entries: "set (object_entries ob) = set ob"
  by (auto simp: object_entries_def)




lemma object_values_no_index:
  "\<forall>k \<in> fst ` set ob. \<not> is_array_index k \<Longrightarrow> object_values ob = map snd ob"
proof -
  assume a: "\<forall>k \<in> fst ` set ob. \<not> is_array_index k"
  then have "filter (\<lambda>kv. is_array_index (fst kv)) ob = []"
    by (auto simp: filter_empty_conv)
  moreover from a have "filter (\<lambda>kv. \<not> is_array_index (fst kv)) ob = ob"
    by (auto simp: filter_id_conv)
  ultimately show ?thesis by (simp add: object_values_def object_entries_def)
qed

subsection \<open>The rows of the output\<close>


lemma output_rows:
  assumes "aggregatedStats ts rb gb = Inr out"
  shows "r \<in> set out \<longleftrightarrow>
     player_rows rb ts (name r) \<noteq> [] \<and> \<not> inherited (name r) \<and>
     r = finalize (player_entry rb gb ts (name r))"
proof -
  from assms obtain agg where agg: "aggregate rb gb ts = Inr agg"
    and out: "out = js_sort compare_rows (map finalize (object_values agg))"
    by (auto simp: aggregatedStats_def split: sum.splits)
  have "set out = (\<lambda>kv. finalize (snd kv)) ` set agg"
    by (simp add: out object_values_def set_object_entries image_image)
  then have "r \<in> set out \<longleftrightarrow> (\<exists>nm e. (nm, e) \<in> set agg \<and> r = finalize e)"
    by force
  also have "\<dots> \<longleftrightarrow> (\<exists>nm. player_rows rb ts nm \<noteq> [] \<and> \<not> inherited nm \<and>
      r = finalize (player_entry rb gb ts nm))"
    by (simp add: aggregate_mem [OF agg])
  also have "\<dots> \<longleftrightarrow> player_rows rb ts (name r) \<noteq> [] \<and> \<not> inherited (name r) \<and>
      r = finalize (player_entry rb gb ts (name r))"
    by (auto simp: name_finalize name_player_entry)
  finally show ?thesis .
qed

lemma aggregatedStats_Inr:
  "(\<exists>out. aggregatedStats ts rb gb = Inr out) \<longleftrightarrow> plain_ids rb gb ts"
proof
  assume "\<exists>out. aggregatedStats ts rb gb = Inr out"
  then show "plain_ids rb gb ts"
    by (auto simp: aggregatedStats_def aggregate_rows split: sum.splits)
next
  assume "plain_ids rb gb ts"
  then have "aggregate rb gb ts = Inr (foldl add_row [] (all_rows rb gb ts))"
    by (simp add: aggregate_rows)
  then show "\<exists>out. aggregatedStats ts rb gb = Inr out"
    by (simp add: aggregatedStats_def)
qed

lemma player_rows_nonempty:
  "player_rows rb ts nm \<noteq> [] \<longleftrightarrow>
     (\<exists>t \<in> set ts. \<exists>pl \<in> set (own_results rb t). getUserName pl = Some nm \<and> nm \<noteq> [])"
  by (auto simp: player_rows_def filter_empty_conv resolves_to_def)



text \<open>
  When no tournament id is read from an inherited property the orchestrator returns rows,
  and the names of the rows are the names that resolve from a result row of a filtered
  tournament and are not inherited keys; for every row, \<open>tournaments\<close> is the number of
  result rows whose name resolves to the row's player and \<open>points\<close> is the sum of their
  points.
\<close>

lemma output_names:
  assumes "orchestrator lc mf nf ts rb gb = Inr out"
  shows "name ` set out =
     {nm. \<not> inherited nm \<and> (\<exists>t \<in> set (filterTournaments lc mf nf ts). \<exists>pl \<in> set (own_results rb t).
            getUserName pl = Some nm \<and> nm \<noteq> [])}"
    (is "?L = ?R")
proof (rule set_eqI)
  fix nm
  define fts where "fts = filterTournaments lc mf nf ts"
  have o: "aggregatedStats fts rb gb = Inr out"
    using assms by (simp add: orchestrator_def fts_def)
  have "nm \<in> ?L \<longleftrightarrow> player_rows rb fts nm \<noteq> [] \<and> \<not> inherited nm"
  proof
    assume "nm \<in> ?L"
    then show "player_rows rb fts nm \<noteq> [] \<and> \<not> inherited nm"
      by (auto simp: output_rows [OF o])
  next
    assume ne: "player_rows rb fts nm \<noteq> [] \<and> \<not> inherited nm"
    define r where "r = finalize (player_entry rb gb fts nm)"
    have n: "name r = nm"
      by (simp add: r_def name_finalize name_player_entry)
    with ne have "r \<in> set out"
      by (simp add: output_rows [OF o] r_def)
    with n show "nm \<in> ?L" by (auto simp: image_iff)
  qed
  then show "nm \<in> ?L \<longleftrightarrow> nm \<in> ?R"
    by (auto simp: player_rows_nonempty fts_def)
qed

lemma points_row_update: "points (row_update gm nm pl) = row_points pl"
  by (simp add: row_update_def Let_def)

lemma tournaments_row_update: "tournaments (row_update gm nm pl) = 1"
  by (simp add: row_update_def Let_def)

lemma sum_list_ones: "sum_list (map (\<lambda>x. Suc 0) xs) = length xs"
  by (induction xs) simp_all

lemma tournaments_player_entry:
  "tournaments (player_entry rb gb ts nm) = length (player_rows rb ts nm)"
  by (simp add: player_entry_def foldl_sumStats new_entry_def player_updates_def comp_def
      tournaments_row_update sum_list_ones)

lemma points_player_entry:
  "points (player_entry rb gb ts nm) =
     foldl js_add 0 (map (\<lambda>tp. row_points (snd tp)) (player_rows rb ts nm))"
  by (simp add: player_entry_def foldl_sumStats new_entry_def player_updates_def comp_def
      points_row_update)

lemma finalize_fields:
  "points (finalize e) = points e" "tournaments (finalize e) = tournaments e"
  "perfSum (finalize e) = perfSum e" "perfWeight (finalize e) = perfWeight e"
  "wins (finalize e) = wins e" "draws (finalize e) = draws e" "losses (finalize e) = losses e"
  by (simp_all add: finalize_def Let_def)

lemma rows_counted:
  assumes "orchestrator lc mf nf ts rb gb = Inr out" "r \<in> set out"
  shows "tournaments r = length (player_rows rb (filterTournaments lc mf nf ts) (name r)) \<and>
     points r = foldl js_add 0 (map (\<lambda>tp. row_points (snd tp))
                                  (player_rows rb (filterTournaments lc mf nf ts) (name r)))"
proof -
  have o: "aggregatedStats (filterTournaments lc mf nf ts) rb gb = Inr out"
    using assms by (simp add: orchestrator_def)
  from assms(2) have r: "r = finalize (player_entry rb gb (filterTournaments lc mf nf ts) (name r))"
    by (simp add: output_rows [OF o])
  show ?thesis
    by (subst (1 3) r) (simp add: finalize_fields tournaments_player_entry points_player_entry)
qed


section \<open>Examples\<close>

text \<open>Result rows with a \<^verbatim>\<open>username\<close>, a \<^verbatim>\<open>score\<close> and a \<^verbatim>\<open>performance\<close>.\<close>

definition mk_row :: "string option \<Rightarrow> jsval \<Rightarrow> jsval \<Rightarrow> player" where
  "mk_row u sc pf =
    \<lparr>username = u, player_name = None, user_name = None, user_id = None,
     score = sc, player_points = Undefined, player_performance = pf,
     perf = Undefined, performanceRating = Undefined\<rparr>"







section \<open>Order of the output\<close>





section \<open>Names and ids that are inherited keys\<close>

text \<open>A tournament in which \<open>constructor\<close> has two rows and \<open>bob\<close> one, and a tournament
  whose id is \<open>toString\<close>.\<close>

definition constructor_results :: "player list obj" where
  "constructor_results =
    [(''t2'', [mk_row (Some ''constructor'') (Num 3) (Num 1500),
              mk_row (Some ''bob'') (Num 2) (Num 1400),
              mk_row (Some ''constructor'') (Num 4) (Num 1600)])]"

definition toString_tournament :: tournament where
  "toString_tournament =
    \<lparr>tid = ''toString'', fullName = ''Gambit Monthly Arena'', startsAt = 1700000000000,
     minutes = Num 60, nbPlayers = Num 20\<rparr>"

text \<open>
  Claim C9 fails in the code. The name \<open>constructor\<close> resolves from two result rows of the
  tournament \<open>t2\<close>, and the output has the single row of \<open>bob\<close>; and for a tournament whose
  id is \<open>toString\<close> and that has no results, the code does not take the empty list but
  raises a TypeError.
\<close>

theorem output_inherited_name:
  "getUserName (mk_row (Some ''constructor'') (Num 3) (Num 1500)) = Some ''constructor'' \<and>
   map_sum id (map name) (aggregatedStats example_tournaments constructor_results []) = Inr [''bob''] \<and>
   aggregatedStats [toString_tournament] [] [] = Inl TypeError"
  unfolding constructor_results_def example_tournaments_def toString_tournament_def mk_row_def
  by code_simp

text \<open>
  Claim C10 fails in the code. Two result rows resolve to the player \<open>constructor\<close>, and
  no row of the output, hence no \<open>tournaments\<close> count, belongs to that player.
\<close>

theorem rows_of_inherited_name:
  "length (player_rows constructor_results example_tournaments ''constructor'') = 2 \<and>
   map_sum id (map (\<lambda>r. (name r, tournaments r)))
     (aggregatedStats example_tournaments constructor_results []) = Inr [(''bob'', 1)]"
  unfolding constructor_results_def example_tournaments_def mk_row_def
  by code_simp


section \<open>Properties of the Metric Finalizer\<close>





















section \<open>Properties of the timestamp normalisation\<close>

lemma normalizeMs_Num: "normalizeMs now (Num r) = (if r < 10000000000 then r * 1000 else r)"
  by (simp add: normalizeMs_def)

lemma normalizeMs_not_finite: "to_number v = None \<Longrightarrow> normalizeMs now v = now"
  by (simp add: normalizeMs_def)

lemma startsAt_make_tournament:
  "startsAt (make_tournament now it) =
    (if val_truthy (raw_timestamp it) then normalizeMs now (raw_timestamp it)
     else normalizeMs now (Num now))"
  by (simp add: make_tournament_def val_or_def)

text \<open>An entry whose \<^verbatim>\<open>startsAt\<close> is the number zero, and one with a \<^verbatim>\<open>createdAt\<close> in
  seconds only.\<close>

definition epoch_item :: item where
  "epoch_item =
    \<lparr>item_id = ''t0'', item_fullName = Some ''Epoch Arena'', item_name = None,
     item_startsAt = Num 0, item_createdAt = Undefined,
     item_minutes = Num 60, item_nbPlayers = Num 2\<rparr>"

definition seconds_item :: item where
  "seconds_item =
    \<lparr>item_id = ''t2'', item_fullName = None, item_name = Some ''Gambit Monthly Arena'',
     item_startsAt = Undefined, item_createdAt = Num 1700000000,
     item_minutes = Num 60, item_nbPlayers = Num 20\<rparr>"

lemma example_raw_timestamps:
  "raw_timestamp epoch_item = Undefined" "raw_timestamp seconds_item = Num 1700000000"
  "item_startsAt epoch_item = Num 0"
  by (simp_all add: raw_timestamp_def val_or_def epoch_item_def seconds_item_def)

text \<open>
  Claim C6, as the code has it. \<^verbatim>\<open>normalizeMs\<close> maps every finite number below \<open>10^10\<close>
  to the number times \<open>1000\<close>, every other finite number to itself, and a missing or
  non-numeric value to the current time. A tournament is built from the raw timestamp
  \<^verbatim>\<open>item.startsAt || item.createdAt\<close>: a raw number other than zero is normalised by that
  rule and a non-numeric value becomes the current time; a raw timestamp that is missing,
  \<^verbatim>\<open>null\<close> or zero is replaced by the current time, which stays as it is when the clock
  reads at least \<open>10^10\<close> milliseconds.
\<close>

theorem timestamp_normalization:
  "(\<forall>r. normalizeMs now (Num r) = (if r < 10000000000 then r * 1000 else r)) \<and>
   normalizeMs now Undefined = now \<and> normalizeMs now NonNumeric = now \<and>
   (\<forall>r. raw_timestamp it = Num r \<and> r \<noteq> 0 \<longrightarrow>
        startsAt (make_tournament now it) = (if r < 10000000000 then r * 1000 else r)) \<and>
   (raw_timestamp it = NonNumeric \<longrightarrow> startsAt (make_tournament now it) = now) \<and>
   ((raw_timestamp it = Undefined \<or> raw_timestamp it = Null \<or> raw_timestamp it = Num 0) \<and>
      10000000000 \<le> now \<longrightarrow> startsAt (make_tournament now it) = now)"
  by (auto simp: startsAt_make_tournament normalizeMs_def)

theorem timestamp_normalization_witness:
  "raw_timestamp seconds_item = Num 1700000000 \<and> (1700000000 :: rat) \<noteq> 0 \<and>
   startsAt (make_tournament 1762000000000 seconds_item) = 1700000000000 \<and>
   raw_timestamp epoch_item = Undefined \<and> (10000000000 :: rat) \<le> 1762000000000 \<and>
   startsAt (make_tournament 1762000000000 epoch_item) = 1762000000000"
  using timestamp_normalization [of 1762000000000 seconds_item]
    timestamp_normalization [of 1762000000000 epoch_item]
  by (simp add: example_raw_timestamps)

text \<open>The raw value \<open>0\<close> is finite and below \<open>10^10\<close>, and the tournament does not start
  at \<open>0 * 1000\<close>.\<close>

theorem timestamp_normalization_counterexample:
  "item_startsAt epoch_item = Num 0 \<and> (0 :: rat) < 10000000000 \<and>
   startsAt (make_tournament 1762000000000 epoch_item) \<noteq> 0 * 1000"
  by (simp add: example_raw_timestamps startsAt_make_tournament normalizeMs_def)

end
